theory Spec2Isabelle
  imports Complex_Main
begin

section \<open>Python values\<close>

text \<open>
  A Python \<^verbatim>\<open>str\<close> is a sequence of Unicode code points. The literals of the source are
  written with \<open>ustr\<close> where they are ASCII and as explicit code points where they are not
  (the icons, the degree sign, the apostrophe and the line feed).
\<close>

type_synonym pystr = "nat list"

definition ustr :: "string \<Rightarrow> pystr" where
  "ustr s = map of_char s"

text \<open>
  A float is kept as the two things the bot observes of it: its exact value (every finite
  double is a rational; comparisons of a float with an int are exact in Python) and the
  text \<^verbatim>\<open>str\<close> gives for it.
\<close>

datatype fvalue = Fin rat | PosInf | NegInf | NaN

datatype pyfloat = PyFloat (fl_value: fvalue) (fl_text: pystr)

text \<open>
  What \<^verbatim>\<open>response.json()\<close> returns. \<open>JNull\<close> is Python's \<^verbatim>\<open>None\<close>; a dict is
  the list of its items (a parsed dict holds each key once).
\<close>

datatype json =
    JNull
  | JBool bool
  | JInt int
  | JFloat pyfloat
  | JStr pystr
  | JArr "json list"
  | JObj "(pystr \<times> json) list"

text \<open>The exceptions the modelled code can raise; \<open>Inl e\<close> is "raises e".\<close>

datatype py_error =
    KeyError
  | IndexError
  | TypeError
  | AttributeError
  | ApiRequestFailed int
  | ClientError
  | BodyDecodeError

definition bnd :: "py_error + 'a \<Rightarrow> ('a \<Rightarrow> py_error + 'b) \<Rightarrow> py_error + 'b" where
  "bnd m f = (case m of Inl e \<Rightarrow> Inl e | Inr x \<Rightarrow> f x)"

subsection \<open>Comparisons of a JSON value with an int literal\<close>

definition float_lt :: "pyfloat \<Rightarrow> int \<Rightarrow> bool" where
  "float_lt f n =
     (case fl_value f of
        Fin q \<Rightarrow> q < of_int n
      | NegInf \<Rightarrow> True
      | PosInf \<Rightarrow> False
      | NaN \<Rightarrow> False)"

definition float_eq :: "pyfloat \<Rightarrow> int \<Rightarrow> bool" where
  "float_eq f n = (case fl_value f of Fin q \<Rightarrow> q = of_int n | _ \<Rightarrow> False)"

text \<open>
  \<^verbatim>\<open>v < n\<close>: defined for int, bool (an int subtype) and float; every other operand type
  raises TypeError.
\<close>

definition py_lt :: "json \<Rightarrow> int \<Rightarrow> py_error + bool" where
  "py_lt v n =
     (case v of
        JInt i \<Rightarrow> Inr (i < n)
      | JBool b \<Rightarrow> Inr ((if b then 1 else 0) < n)
      | JFloat f \<Rightarrow> Inr (float_lt f n)
      | _ \<Rightarrow> Inl TypeError)"

text \<open>\<^verbatim>\<open>v == n\<close> never raises; values of other types are unequal to an int.\<close>

definition py_eq :: "json \<Rightarrow> int \<Rightarrow> bool" where
  "py_eq v n =
     (case v of
        JInt i \<Rightarrow> i = n
      | JBool b \<Rightarrow> (if b then 1 else 0) = n
      | JFloat f \<Rightarrow> float_eq f n
      | _ \<Rightarrow> False)"

section \<open>The condition icon\<close>

definition thunderstorm_icon :: pystr where "thunderstorm_icon = [0x26C8, 0xFE0F]"
definition drizzle_icon :: pystr where "drizzle_icon = [0x1F326, 0xFE0F]"
definition rain_icon :: pystr where "rain_icon = [0x1F327, 0xFE0F]"
definition snow_icon :: pystr where "snow_icon = [0x2744, 0xFE0F]"
definition atmosphere_icon :: pystr where "atmosphere_icon = [0x1F32B, 0xFE0F]"
definition clear_sky_icon :: pystr where "clear_sky_icon = [0x2600, 0xFE0F]"
definition clouds_icon :: pystr where "clouds_icon = [0x2601, 0xFE0F]"

text \<open>
  \<^verbatim>\<open>get_weather_emoji\<close> (lines 98-113 of both files): the chain of comparisons, in the
  order of the source. The argument is whatever the payload holds under
  \<^verbatim>\<open>weather[0].id\<close>.
\<close>

definition get_weather_emoji :: "json \<Rightarrow> py_error + pystr" where
  "get_weather_emoji weather_id =
     bnd (py_lt weather_id 300) (\<lambda>b1.
       if b1 then Inr thunderstorm_icon
       else bnd (py_lt weather_id 400) (\<lambda>b2.
         if b2 then Inr drizzle_icon
         else bnd (py_lt weather_id 600) (\<lambda>b3.
           if b3 then Inr rain_icon
           else bnd (py_lt weather_id 700) (\<lambda>b4.
             if b4 then Inr snow_icon
             else bnd (py_lt weather_id 800) (\<lambda>b5.
               if b5 then Inr atmosphere_icon
               else if py_eq weather_id 800 then Inr clear_sky_icon
               else Inr clouds_icon)))))"

section \<open>Rendering and reading payload values\<close>

text \<open>
  The parts of the Python runtime the formatter calls and this repository does not hold:
  the text of a list or dict inside an f-string, and the Unicode case tables behind
  \<^verbatim>\<open>str.title\<close> (whether a code point is cased, its title-case mapping, and the lower-case
  mapping of the code point at an index of a string, which CPython computes in context).
  They are parameters of the model.
\<close>

record py_runtime =
  repr_container :: "json \<Rightarrow> pystr"
  is_cased :: "nat \<Rightarrow> bool"
  title_of :: "nat \<Rightarrow> pystr"
  lower_at :: "pystr \<Rightarrow> nat \<Rightarrow> pystr"

fun digits_of :: "nat \<Rightarrow> pystr" where
  "digits_of n = (if n < 10 then [48 + n] else digits_of (n div 10) @ [48 + n mod 10])"

definition str_int :: "int \<Rightarrow> pystr" where
  "str_int i = (if i < 0 then 45 # digits_of (nat (- i)) else digits_of (nat i))"

text \<open>What \<^verbatim>\<open>f"{v}"\<close> inserts for a payload value \<open>v\<close>: \<^verbatim>\<open>str(v)\<close>.\<close>

definition py_str :: "py_runtime \<Rightarrow> json \<Rightarrow> pystr" where
  "py_str rt v =
     (case v of
        JNull \<Rightarrow> ustr ''None''
      | JBool b \<Rightarrow> (if b then ustr ''True'' else ustr ''False'')
      | JInt i \<Rightarrow> str_int i
      | JFloat f \<Rightarrow> fl_text f
      | JStr s \<Rightarrow> s
      | JArr xs \<Rightarrow> repr_container rt v
      | JObj kvs \<Rightarrow> repr_container rt v)"

text \<open>
  \<^verbatim>\<open>s.title()\<close> as CPython computes it: a code point that follows a cased one is
  lower-cased, every other one is title-cased.
\<close>

definition py_title :: "py_runtime \<Rightarrow> pystr \<Rightarrow> pystr" where
  "py_title rt s =
     concat (map (\<lambda>i. if 0 < i \<and> is_cased rt (s ! (i - 1)) then lower_at rt s i
                       else title_of rt (s ! i))
                 [0..<length s])"

text \<open>\<^verbatim>\<open>v.title()\<close> on a payload value: only a str has the method.\<close>

definition title_method :: "py_runtime \<Rightarrow> json \<Rightarrow> py_error + pystr" where
  "title_method rt v = (case v of JStr s \<Rightarrow> Inr (py_title rt s) | _ \<Rightarrow> Inl AttributeError)"

text \<open>\<^verbatim>\<open>v[k]\<close> with a str key \<open>k\<close>.\<close>

definition getitem_key :: "json \<Rightarrow> pystr \<Rightarrow> py_error + json" where
  "getitem_key v k =
     (case v of
        JObj kvs \<Rightarrow> (case map_of kvs k of None \<Rightarrow> Inl KeyError | Some x \<Rightarrow> Inr x)
      | _ \<Rightarrow> Inl TypeError)"

text \<open>
  \<^verbatim>\<open>v[0]\<close>: the first element of a list, the first character of a str, KeyError on a
  dict (the keys of a parsed object are strs), TypeError on anything else.
\<close>

definition getitem_zero :: "json \<Rightarrow> py_error + json" where
  "getitem_zero v =
     (case v of
        JArr xs \<Rightarrow> (case xs of [] \<Rightarrow> Inl IndexError | x # _ \<Rightarrow> Inr x)
      | JStr s \<Rightarrow> (case s of [] \<Rightarrow> Inl IndexError | c # _ \<Rightarrow> Inr (JStr [c]))
      | JObj kvs \<Rightarrow> Inl KeyError
      | _ \<Rightarrow> Inl TypeError)"

text \<open>\<^verbatim>\<open>v.get(k, default)\<close>: only a dict has the method.\<close>

definition dict_get :: "json \<Rightarrow> pystr \<Rightarrow> json \<Rightarrow> py_error + json" where
  "dict_get v k dflt =
     (case v of
        JObj kvs \<Rightarrow> Inr (case map_of kvs k of None \<Rightarrow> dflt | Some x \<Rightarrow> x)
      | _ \<Rightarrow> Inl AttributeError)"

section \<open>The formatter\<close>

text \<open>The two files of the repository: \<^verbatim>\<open>weather_bot.py\<close> and \<^verbatim>\<open>weather_bot_cloud.py\<close>.\<close>

datatype variant = Local | Cloud

text \<open>
  The one line of the formatter on which the files differ (line 80 of
  \<^verbatim>\<open>weather_bot.py\<close>, line 81 of \<^verbatim>\<open>weather_bot_cloud.py\<close>):
  \<^verbatim>\<open>weather_data['main'].get('wind', {}).get('speed', 'N/A')\<close> and
  \<^verbatim>\<open>weather_data.get('wind', {}).get('speed', 'N/A')\<close>.
\<close>

definition read_wind_speed :: "variant \<Rightarrow> json \<Rightarrow> py_error + json" where
  "read_wind_speed var weather_data =
     (case var of
        Local \<Rightarrow>
          bnd (getitem_key weather_data (ustr ''main'')) (\<lambda>m.
          bnd (dict_get m (ustr ''wind'') (JObj [])) (\<lambda>w.
          dict_get w (ustr ''speed'') (JStr (ustr ''N/A''))))
      | Cloud \<Rightarrow>
          bnd (dict_get weather_data (ustr ''wind'') (JObj [])) (\<lambda>w.
          dict_get w (ustr ''speed'') (JStr (ustr ''N/A''))))"

text \<open>
  \<^verbatim>\<open>format_weather_message\<close> (lines 71-96): the reads in the order of the source, so
  that the first failing one decides the exception, then the f-string.
\<close>

definition format_weather_message :: "py_runtime \<Rightarrow> variant \<Rightarrow> json \<Rightarrow> py_error + pystr" where
  "format_weather_message rt var weather_data =
     bnd (getitem_key weather_data (ustr ''name'')) (\<lambda>city.
     bnd (bnd (getitem_key weather_data (ustr ''sys''))
              (\<lambda>s. getitem_key s (ustr ''country''))) (\<lambda>country.
     bnd (bnd (getitem_key weather_data (ustr ''main''))
              (\<lambda>m. getitem_key m (ustr ''temp''))) (\<lambda>temp.
     bnd (bnd (getitem_key weather_data (ustr ''main''))
              (\<lambda>m. getitem_key m (ustr ''feels_like''))) (\<lambda>feels_like.
     bnd (bnd (getitem_key weather_data (ustr ''main''))
              (\<lambda>m. getitem_key m (ustr ''humidity''))) (\<lambda>humidity.
     bnd (bnd (getitem_key weather_data (ustr ''main''))
              (\<lambda>m. getitem_key m (ustr ''pressure''))) (\<lambda>pressure.
     bnd (bnd (bnd (bnd (getitem_key weather_data (ustr ''weather'')) getitem_zero)
                   (\<lambda>w. getitem_key w (ustr ''description'')))
              (title_method rt)) (\<lambda>description.
     bnd (read_wind_speed var weather_data) (\<lambda>wind_speed.
     bnd (bnd (bnd (getitem_key weather_data (ustr ''weather'')) getitem_zero)
              (\<lambda>w. getitem_key w (ustr ''id''))) (\<lambda>weather_id.
     bnd (get_weather_emoji weather_id) (\<lambda>emoji.
     Inr (emoji @ ustr '' Weather in '' @ py_str rt city @ ustr '', '' @ py_str rt country
            @ [10, 10]
          @ [0x1F321, 0xFE0F] @ ustr '' Temperature: '' @ py_str rt temp @ [0xB0] @ ustr ''C''
            @ [10]
          @ [0x1F914] @ ustr '' Feels like: '' @ py_str rt feels_like @ [0xB0] @ ustr ''C''
            @ [10]
          @ [0x1F4DD] @ ustr '' Description: '' @ description @ [10]
          @ [0x1F4A7] @ ustr '' Humidity: '' @ py_str rt humidity @ ustr ''%'' @ [10]
          @ [0x1F4CA] @ ustr '' Pressure: '' @ py_str rt pressure @ ustr '' hPa'' @ [10]
          @ [0x1F4A8] @ ustr '' Wind Speed: '' @ py_str rt wind_speed @ ustr '' m/s'')
     ))))))))))"

section \<open>The fetcher and the handlers\<close>

text \<open>
  What the one GET of a lookup yields: a response with its status and, for
  \<^verbatim>\<open>response.json()\<close>, the parsed body (\<open>None\<close> when the body does not parse), or a
  network-level failure inside aiohttp.
\<close>

datatype http_outcome = HttpResponse int "json option" | NetworkFailure

text \<open>
  What a handler does, in order: the chat action and the replies sent to the user, the
  request sent to the weather provider, and the two \<^verbatim>\<open>logger.error\<close> calls. The sends to
  the messaging platform are taken to succeed.
\<close>

datatype event =
    ChatAction pystr
  | HttpGet pystr
  | LogFetchError py_error
  | LogWeatherError pystr py_error
  | ReplyText pystr

text \<open>
  \<^verbatim>\<open>get_weather_data\<close> (lines 50-69): the events and the value returned (\<open>Inr\<close>) or the
  exception raised to the caller (\<open>Inl\<close>). The handler of line 67 logs and re-raises.
\<close>

definition get_weather_data :: "http_outcome \<Rightarrow> pystr \<Rightarrow> event list \<times> (py_error + json)" where
  "get_weather_data outcome city_name =
     (let attempt =
        (case outcome of
           NetworkFailure \<Rightarrow> Inl ClientError
         | HttpResponse status body \<Rightarrow>
             if status = 200 then
               (case body of None \<Rightarrow> Inl BodyDecodeError | Some d \<Rightarrow> Inr d)
             else if status = 404 then Inr JNull
             else Inl (ApiRequestFailed status))
      in case attempt of
           Inl e \<Rightarrow> ([HttpGet city_name, LogFetchError e], Inl e)
         | Inr d \<Rightarrow> ([HttpGet city_name], Inr d))"

definition not_found_text :: "pystr \<Rightarrow> pystr" where
  "not_found_text city_name =
     [0x274C] @ ustr '' Sorry, I couldn't find weather information for '' @ [39] @ city_name
       @ [39] @ ustr ''.'' @ [10]
     @ ustr ''Please check the city name and try again.''"

definition generic_failure_text :: pystr where
  "generic_failure_text =
     [0x274C] @ ustr '' Sorry, there was an error getting the weather information. ''
     @ ustr ''Please try again later.''"

text \<open>\<^verbatim>\<open>get_weather\<close> (lines 140-163).\<close>

definition get_weather :: "py_runtime \<Rightarrow> variant \<Rightarrow> http_outcome \<Rightarrow> pystr \<Rightarrow> event list" where
  "get_weather rt var outcome city_name =
     ChatAction (ustr ''typing'') #
     (case get_weather_data outcome city_name of
        (evs, Inl e) \<Rightarrow> evs @ [LogWeatherError city_name e, ReplyText generic_failure_text]
      | (evs, Inr weather_data) \<Rightarrow>
          if weather_data = JNull then evs @ [ReplyText (not_found_text city_name)]
          else (case format_weather_message rt var weather_data of
                  Inl e \<Rightarrow> evs @ [LogWeatherError city_name e, ReplyText generic_failure_text]
                | Inr weather_message \<Rightarrow> evs @ [ReplyText weather_message]))"

text \<open>\<^verbatim>\<open>' '.join(args)\<close>.\<close>

fun join_space :: "pystr list \<Rightarrow> pystr" where
  "join_space [] = []"
| "join_space [x] = x"
| "join_space (x # y # ys) = x @ [32] @ join_space (y # ys)"

text \<open>
  \<^verbatim>\<open>weather_command\<close> (lines 115-125). \<open>args\<close> is \<^verbatim>\<open>context.args\<close>, the tokens the
  messaging library found after the command.
\<close>

definition weather_command :: "py_runtime \<Rightarrow> variant \<Rightarrow> http_outcome \<Rightarrow> pystr list \<Rightarrow> event list" where
  "weather_command rt var outcome args =
     (if args = [] then
        [ReplyText (ustr ''Please provide a city name!'' @ [10]
                    @ ustr ''Example: /weather London'')]
      else get_weather rt var outcome (join_space args))"

text \<open>The code points \<^verbatim>\<open>str.strip()\<close> removes: those for which \<^verbatim>\<open>str.isspace\<close> holds.\<close>

definition py_isspace :: "nat \<Rightarrow> bool" where
  "py_isspace c =
     ((0x9 \<le> c \<and> c \<le> 0xD) \<or> (0x1C \<le> c \<and> c \<le> 0x20) \<or> c = 0x85 \<or> c = 0xA0
      \<or> c = 0x1680 \<or> (0x2000 \<le> c \<and> c \<le> 0x200A) \<or> c = 0x2028 \<or> c = 0x2029
      \<or> c = 0x202F \<or> c = 0x205F \<or> c = 0x3000)"

definition py_strip :: "pystr \<Rightarrow> pystr" where
  "py_strip s = rev (dropWhile py_isspace (rev (dropWhile py_isspace s)))"

definition startswith_slash :: "pystr \<Rightarrow> bool" where
  "startswith_slash s = (case s of [] \<Rightarrow> False | c # _ \<Rightarrow> c = 47)"

text \<open>\<^verbatim>\<open>handle_message\<close> (lines 127-138). \<open>text_in\<close> is \<^verbatim>\<open>update.message.text\<close>.\<close>

definition handle_message :: "py_runtime \<Rightarrow> variant \<Rightarrow> http_outcome \<Rightarrow> pystr \<Rightarrow> event list" where
  "handle_message rt var outcome text_in =
     (let city_name = py_strip text_in in
      if startswith_slash city_name then
        [ReplyText (ustr ''Unknown command. Type /help for available commands.'')]
      else get_weather rt var outcome city_name)"

section \<open>Vocabulary of the properties\<close>

text \<open>
  A field of the payload by its path, as the interface description writes it
  (\<^verbatim>\<open>main.temp\<close>, \<^verbatim>\<open>weather[0].id\<close>): \<open>None\<close> when a key or the first element is missing
  on the way.
\<close>

datatype step = Key pystr | First

fun json_at :: "json \<Rightarrow> step list \<Rightarrow> json option" where
  "json_at v [] = Some v"
| "json_at (JObj kvs) (Key k # p) =
     (case map_of kvs k of None \<Rightarrow> None | Some x \<Rightarrow> json_at x p)"
| "json_at (JArr (x # xs)) (First # p) = json_at x p"
| "json_at v (st # p) = None"

definition required_paths :: "step list list" where
  "required_paths =
     [[Key (ustr ''name'')],
      [Key (ustr ''sys''), Key (ustr ''country'')],
      [Key (ustr ''main''), Key (ustr ''temp'')],
      [Key (ustr ''main''), Key (ustr ''feels_like'')],
      [Key (ustr ''main''), Key (ustr ''humidity'')],
      [Key (ustr ''main''), Key (ustr ''pressure'')],
      [Key (ustr ''weather''), First, Key (ustr ''description'')],
      [Key (ustr ''weather''), First, Key (ustr ''id'')]]"

definition missing_required_field :: "json \<Rightarrow> bool" where
  "missing_required_field d = list_ex (\<lambda>p. json_at d p = None) required_paths"



text \<open>
  An instance of the runtime tables for running the model on ASCII text: the case
  mappings of CPython restricted to the ASCII letters. No payload evaluated below renders
  a list or a dict, so their rendering is left empty here.
\<close>

definition ascii_runtime :: py_runtime where
  "ascii_runtime =
     \<lparr> repr_container = (\<lambda>v. []),
       is_cased = (\<lambda>c. (65 \<le> c \<and> c \<le> 90) \<or> (97 \<le> c \<and> c \<le> 122)),
       title_of = (\<lambda>c. [if 97 \<le> c \<and> c \<le> 122 then c - 32 else c]),
       lower_at = (\<lambda>s i. [if 65 \<le> s ! i \<and> s ! i \<le> 90 then s ! i + 32 else s ! i]) \<rparr>"






text \<open>The same payload with an empty \<^verbatim>\<open>sys\<close> object: \<^verbatim>\<open>sys.country\<close> is missing.\<close>

definition payload_without_country :: json where
  "payload_without_country =
     JObj [(ustr ''name'', JStr (ustr ''London'')),
           (ustr ''sys'', JObj []),
           (ustr ''main'',
              JObj [(ustr ''temp'', JFloat (PyFloat (Fin 15) (ustr ''15.0''))),
                    (ustr ''feels_like'', JFloat (PyFloat (Fin 14) (ustr ''14.0''))),
                    (ustr ''humidity'', JInt 80),
                    (ustr ''pressure'', JInt 1012)]),
           (ustr ''weather'',
              JArr [JObj [(ustr ''id'', JInt 801),
                          (ustr ''description'', JStr (ustr ''few clouds''))]])]"

section \<open>Properties\<close>

subsection \<open>Sequencing and reading\<close>

lemma bnd_Inr: "bnd (Inr x) f = f x"
  by (simp add: bnd_def)

lemma bnd_InrE:
  assumes "bnd m f = Inr y"
  obtains x where "m = Inr x" and "f x = Inr y"
  using assms by (cases m) (simp_all add: bnd_def)







lemma getitem_key_InrD: "getitem_key d k = Inr v \<Longrightarrow> \<exists>kvs. d = JObj kvs \<and> map_of kvs k = Some v"
  by (cases d) (simp_all add: getitem_key_def split: option.splits)

lemma getitem_zero_key_InrD:
  "getitem_zero x = Inr w \<Longrightarrow> getitem_key w k = Inr v \<Longrightarrow> \<exists>xs. x = JArr (w # xs)"
  by (cases x) (auto simp: getitem_zero_def getitem_key_def split: list.splits)

subsection \<open>The condition icon\<close>

lemma get_weather_emoji_int:
  "get_weather_emoji (JInt n) =
     Inr (if n < 300 then thunderstorm_icon
          else if n < 400 then drizzle_icon
          else if n < 600 then rain_icon
          else if n < 700 then snow_icon
          else if n < 800 then atmosphere_icon
          else if n = 800 then clear_sky_icon
          else clouds_icon)"
  by (simp add: get_weather_emoji_def py_lt_def py_eq_def bnd_Inr)

lemmas icon_defs =
  thunderstorm_icon_def drizzle_icon_def rain_icon_def snow_icon_def
  atmosphere_icon_def clear_sky_icon_def clouds_icon_def

text \<open>
  C1. For every integer condition code \<open>n\<close> the icon function returns a value, and that
  value is the thunderstorm icon exactly when \<open>n < 300\<close>, the drizzle icon exactly when
  \<open>300 \<le> n < 400\<close>, the rain icon exactly when \<open>400 \<le> n < 600\<close>, the snow icon exactly
  when \<open>600 \<le> n < 700\<close>, the atmosphere icon exactly when \<open>700 \<le> n < 800\<close>, the clear-sky
  icon exactly when \<open>n = 800\<close> and the clouds icon exactly when \<open>n > 800\<close>: the seven
  cases cover the integers and no two overlap. The boundary codes 299, 300, 399, 400,
  599, 600, 699, 700, 799, 800 and 801 resolve accordingly.
\<close>

theorem get_weather_emoji_partition:
  "(\<exists>icon. get_weather_emoji (JInt n) = Inr icon)
   \<and> (get_weather_emoji (JInt n) = Inr thunderstorm_icon) = (n < 300)
   \<and> (get_weather_emoji (JInt n) = Inr drizzle_icon) = (300 \<le> n \<and> n < 400)
   \<and> (get_weather_emoji (JInt n) = Inr rain_icon) = (400 \<le> n \<and> n < 600)
   \<and> (get_weather_emoji (JInt n) = Inr snow_icon) = (600 \<le> n \<and> n < 700)
   \<and> (get_weather_emoji (JInt n) = Inr atmosphere_icon) = (700 \<le> n \<and> n < 800)
   \<and> (get_weather_emoji (JInt n) = Inr clear_sky_icon) = (n = 800)
   \<and> (get_weather_emoji (JInt n) = Inr clouds_icon) = (800 < n)
   \<and> get_weather_emoji (JInt 299) = Inr thunderstorm_icon
   \<and> get_weather_emoji (JInt 300) = Inr drizzle_icon
   \<and> get_weather_emoji (JInt 399) = Inr drizzle_icon
   \<and> get_weather_emoji (JInt 400) = Inr rain_icon
   \<and> get_weather_emoji (JInt 599) = Inr rain_icon
   \<and> get_weather_emoji (JInt 600) = Inr snow_icon
   \<and> get_weather_emoji (JInt 699) = Inr snow_icon
   \<and> get_weather_emoji (JInt 700) = Inr atmosphere_icon
   \<and> get_weather_emoji (JInt 799) = Inr atmosphere_icon
   \<and> get_weather_emoji (JInt 800) = Inr clear_sky_icon
   \<and> get_weather_emoji (JInt 801) = Inr clouds_icon"
  unfolding get_weather_emoji_int by (simp add: icon_defs)

theorem get_weather_emoji_partition_witness:
  "get_weather_emoji (JInt 804) = Inr clouds_icon
   \<and> get_weather_emoji (JInt 804) \<noteq> Inr clear_sky_icon
   \<and> get_weather_emoji (JInt 800) = Inr clear_sky_icon"
  using get_weather_emoji_partition [of 804] by (simp add: icon_defs)


subsection \<open>The fetcher and its caller\<close>

lemma get_weather_data_404:
  "get_weather_data (HttpResponse 404 body) city = ([HttpGet city], Inr JNull)"
  by (simp add: get_weather_data_def)

lemma get_weather_data_status:
  "status \<noteq> 200 \<Longrightarrow> status \<noteq> 404 \<Longrightarrow>
   get_weather_data (HttpResponse status body) city
     = ([HttpGet city, LogFetchError (ApiRequestFailed status)], Inl (ApiRequestFailed status))"
  by (simp add: get_weather_data_def)

lemma get_weather_data_network:
  "get_weather_data NetworkFailure city
     = ([HttpGet city, LogFetchError ClientError], Inl ClientError)"
  by (simp add: get_weather_data_def)

lemma get_weather_on_raise:
  "get_weather_data outcome city = (evs, Inl e) \<Longrightarrow>
   get_weather rt var outcome city
     = ChatAction (ustr ''typing'') # evs
       @ [LogWeatherError city e, ReplyText generic_failure_text]"
  by (simp add: get_weather_def)

text \<open>
  C2. For every city, when the response has status 404 the fetcher returns \<^verbatim>\<open>None\<close>
  without logging, and \<^verbatim>\<open>get_weather\<close> sends the typing action, the request, and as its
  only reply the not-found text with the queried city between the apostrophes, a line
  feed, and the advice to check the city name.
\<close>

theorem not_found_reply:
  "get_weather_data (HttpResponse 404 body) city = ([HttpGet city], Inr JNull)
   \<and> get_weather rt var (HttpResponse 404 body) city =
       [ChatAction (ustr ''typing''), HttpGet city,
        ReplyText ([0x274C] @ ustr '' Sorry, I couldn't find weather information for ''
                   @ [39] @ city @ [39] @ ustr ''.'' @ [10]
                   @ ustr ''Please check the city name and try again.'')]"
  by (simp add: get_weather_def get_weather_data_404 not_found_text_def)

theorem not_found_reply_witness:
  "get_weather_data (HttpResponse 404 None) (ustr ''Atlantis'')
     = ([HttpGet (ustr ''Atlantis'')], Inr JNull)
   \<and> get_weather ascii_runtime Cloud (HttpResponse 404 None) (ustr ''Atlantis'') =
       [ChatAction (ustr ''typing''), HttpGet (ustr ''Atlantis''),
        ReplyText ([0x274C] @ ustr '' Sorry, I couldn't find weather information for ''
                   @ [39] @ ustr ''Atlantis'' @ [39] @ ustr ''.'' @ [10]
                   @ ustr ''Please check the city name and try again.'')]"
  by (rule not_found_reply)

text \<open>
  C3. For every city, a response whose status is neither 200 nor 404 makes the fetcher
  fail with the error that carries the status, and a network-level failure makes it fail
  with the client error; in both cases the only reply of \<^verbatim>\<open>get_weather\<close> is the fixed
  generic-failure text, in which the city does not appear.
\<close>

theorem transport_failure_reply:
  assumes "status \<noteq> 200" and "status \<noteq> 404"
  shows "snd (get_weather_data (HttpResponse status body) city) = Inl (ApiRequestFailed status)
   \<and> get_weather rt var (HttpResponse status body) city =
       [ChatAction (ustr ''typing''), HttpGet city,
        LogFetchError (ApiRequestFailed status), LogWeatherError city (ApiRequestFailed status),
        ReplyText ([0x274C]
          @ ustr '' Sorry, there was an error getting the weather information. Please try again later.'')]
   \<and> snd (get_weather_data NetworkFailure city) = Inl ClientError
   \<and> get_weather rt var NetworkFailure city =
       [ChatAction (ustr ''typing''), HttpGet city,
        LogFetchError ClientError, LogWeatherError city ClientError,
        ReplyText ([0x274C]
          @ ustr '' Sorry, there was an error getting the weather information. Please try again later.'')]"
  using assms
  by (simp add: get_weather_on_raise [OF get_weather_data_status]
      get_weather_on_raise [OF get_weather_data_network]
      get_weather_data_status get_weather_data_network generic_failure_text_def ustr_def)

theorem transport_failure_reply_witness:
  "snd (get_weather_data (HttpResponse 500 None) (ustr ''London'')) = Inl (ApiRequestFailed 500)
   \<and> get_weather ascii_runtime Local (HttpResponse 500 None) (ustr ''London'') =
       [ChatAction (ustr ''typing''), HttpGet (ustr ''London''),
        LogFetchError (ApiRequestFailed 500),
        LogWeatherError (ustr ''London'') (ApiRequestFailed 500),
        ReplyText ([0x274C]
          @ ustr '' Sorry, there was an error getting the weather information. Please try again later.'')]"
  using transport_failure_reply [of 500 None "ustr ''London''" ascii_runtime Local] by simp

text \<open>
  C4, as the code has it. The fetcher returns a value exactly for a 404 response and for
  a 200 response whose body parses; for every other outcome it logs and re-raises to its
  caller. \<^verbatim>\<open>get_weather\<close> catches what the fetcher raises: it logs the error and replies
  with the generic-failure text, so the exception goes no further than the caller.
\<close>

theorem get_weather_catches_fetch_errors:
  "(\<exists>d. snd (get_weather_data outcome city) = Inr d)
     = (\<exists>status body. outcome = HttpResponse status body
          \<and> (status = 404 \<or> (status = 200 \<and> body \<noteq> None)))
   \<and> (snd (get_weather_data outcome city) = Inl e \<longrightarrow>
        get_weather rt var outcome city =
          [ChatAction (ustr ''typing''), HttpGet city, LogFetchError e,
           LogWeatherError city e, ReplyText generic_failure_text])"
  by (cases outcome)
     (auto simp: get_weather_data_def get_weather_def split: option.splits)

theorem get_weather_catches_fetch_errors_witness:
  "snd (get_weather_data (HttpResponse 503 None) (ustr ''Paris'')) = Inl (ApiRequestFailed 503)
   \<and> get_weather ascii_runtime Cloud (HttpResponse 503 None) (ustr ''Paris'') =
          [ChatAction (ustr ''typing''), HttpGet (ustr ''Paris''),
           LogFetchError (ApiRequestFailed 503),
           LogWeatherError (ustr ''Paris'') (ApiRequestFailed 503),
           ReplyText generic_failure_text]"
  using get_weather_catches_fetch_errors
    [of "HttpResponse 503 None" "ustr ''Paris''" "ApiRequestFailed 503" ascii_runtime Cloud]
  by (simp add: get_weather_data_def)

text \<open>
  The fetcher does raise past its own boundary: on a response with status 500 the call
  ends in the exception, after the request and the log entry.
\<close>

theorem get_weather_data_raises_at_500:
  "get_weather_data (HttpResponse 500 None) (ustr ''London'')
     = ([HttpGet (ustr ''London''), LogFetchError (ApiRequestFailed 500)],
        Inl (ApiRequestFailed 500))"
  by (simp add: get_weather_data_def)

subsection \<open>The handlers\<close>

text \<open>
  C8. A \<^verbatim>\<open>/weather\<close> command without argument tokens is answered with exactly the
  guidance text (two lines), and no request to the weather provider is made.
\<close>

theorem weather_command_without_args:
  "weather_command rt var outcome [] =
     [ReplyText (ustr ''Please provide a city name!'' @ [10]
                 @ ustr ''Example: /weather London'')]
   \<and> (\<forall>city. HttpGet city \<notin> set (weather_command rt var outcome []))"
  by (simp add: weather_command_def)

theorem weather_command_without_args_witness:
  "weather_command ascii_runtime Local (HttpResponse 200 None) [] =
     [ReplyText (ustr ''Please provide a city name!'' @ [10]
                 @ ustr ''Example: /weather London'')]
   \<and> (\<forall>city. HttpGet city \<notin> set (weather_command ascii_runtime Local (HttpResponse 200 None) []))"
  by (rule weather_command_without_args)

text \<open>
  C9 fails on the plain-text path. A message that consists of one space is stripped to
  the empty string, which does not start with a slash, so \<^verbatim>\<open>handle_message\<close> goes on to
  \<^verbatim>\<open>get_weather\<close> with the empty city and the request for the empty city is sent.
\<close>

theorem handle_message_blank_text_fetches_empty_city:
  "handle_message rt var outcome [32] = get_weather rt var outcome []
   \<and> HttpGet [] \<in> set (handle_message rt var outcome [32])"
  by (cases outcome)
     (auto simp: handle_message_def py_strip_def py_isspace_def startswith_slash_def
        get_weather_def get_weather_data_def Let_def split: option.splits sum.splits)

theorem handle_message_blank_text_fetches_empty_city_witness:
  "handle_message ascii_runtime Local NetworkFailure [32]
     = [ChatAction (ustr ''typing''), HttpGet [], LogFetchError ClientError,
        LogWeatherError [] ClientError, ReplyText generic_failure_text]"
  using handle_message_blank_text_fetches_empty_city [of ascii_runtime Local NetworkFailure]
  by (simp add: get_weather_on_raise [OF get_weather_data_network])

subsection \<open>The formatter\<close>


lemma format_weather_message_Inr_paths:
  assumes "format_weather_message rt var d = Inr m"
  shows "\<not> missing_required_field d"
  using assms unfolding format_weather_message_def
  apply (elim bnd_InrE)
  apply (frule (1) getitem_zero_key_InrD)
  apply (drule getitem_key_InrD)+
  apply (auto simp: missing_required_field_def required_paths_def)
  done

















lemma payload_without_country_missing: "missing_required_field payload_without_country"
  by (simp add: missing_required_field_def required_paths_def payload_without_country_def ustr_def)

lemma payload_without_country_raises:
  "format_weather_message ascii_runtime Local payload_without_country = Inl KeyError"
  by (simp add: format_weather_message_def payload_without_country_def getitem_key_def
      bnd_def ustr_def)








text \<open>
  C10, as the code has it. For every 200 response whose body is a JSON value other than
  \<^verbatim>\<open>null\<close> and lacks a required field, the formatter raises, \<^verbatim>\<open>get_weather\<close> catches
  the exception and logs it, and the only reply is the fixed generic-failure text.
\<close>

theorem missing_field_fails_closed:
  assumes "d \<noteq> JNull" and "missing_required_field d"
  shows "\<exists>e. format_weather_message rt var d = Inl e
    \<and> get_weather rt var (HttpResponse 200 (Some d)) city =
        [ChatAction (ustr ''typing''), HttpGet city, LogWeatherError city e,
         ReplyText ([0x274C]
           @ ustr '' Sorry, there was an error getting the weather information. Please try again later.'')]"
proof -
  from assms(2) have "\<nexists>m. format_weather_message rt var d = Inr m"
    using format_weather_message_Inr_paths by blast
  then obtain e where e: "format_weather_message rt var d = Inl e"
    by (cases "format_weather_message rt var d") auto
  with assms(1) show ?thesis
    by (simp add: get_weather_def get_weather_data_def generic_failure_text_def ustr_def)
qed

theorem missing_field_fails_closed_witness:
  "format_weather_message ascii_runtime Local payload_without_country = Inl KeyError
    \<and> get_weather ascii_runtime Local (HttpResponse 200 (Some payload_without_country))
         (ustr ''London'') =
        [ChatAction (ustr ''typing''), HttpGet (ustr ''London''),
         LogWeatherError (ustr ''London'') KeyError,
         ReplyText ([0x274C]
           @ ustr '' Sorry, there was an error getting the weather information. Please try again later.'')]"
proof -
  have "payload_without_country \<noteq> JNull"
    by (simp add: payload_without_country_def)
  from missing_field_fails_closed [OF this payload_without_country_missing,
      of ascii_runtime Local "ustr ''London''"]
  show ?thesis
    by (simp add: payload_without_country_raises)
qed

text \<open>
  A 200 response whose body is \<^verbatim>\<open>null\<close> lacks every required field, and is answered
  with the not-found text that names the city: the fetcher's result is \<^verbatim>\<open>None\<close>, as for
  a 404.
\<close>

theorem null_body_gets_not_found_reply:
  "missing_required_field JNull
   \<and> get_weather ascii_runtime Cloud (HttpResponse 200 (Some JNull)) (ustr ''London'') =
       [ChatAction (ustr ''typing''), HttpGet (ustr ''London''),
        ReplyText ([0x274C] @ ustr '' Sorry, I couldn't find weather information for ''
                   @ [39] @ ustr ''London'' @ [39] @ ustr ''.'' @ [10]
                   @ ustr ''Please check the city name and try again.'')]"
  by (simp add: missing_required_field_def required_paths_def get_weather_def
      get_weather_data_def not_found_text_def)

end
